theory Spec2Isabelle
  imports Main "HOL-Library.Sublist"
begin

section \<open>Python values used by the application\<close>

text \<open>
  A Python \<open>str\<close> is a sequence of Unicode code points, so it is modelled as a list of
  natural numbers; \<open>py\<close> turns an ASCII literal into such a sequence. Code points beyond
  ASCII (the accented letters and the emoji of the French user interface) are written as
  numbers. \<open>bytes\<close> are lists of byte values.
\<close>

type_synonym pystr = "nat list"
type_synonym bytes = "nat list"

definition py :: "string \<Rightarrow> pystr" where
  "py s = map of_char s"

text \<open>\<open>str(n)\<close> of a non-negative integer, as an f-string renders it.\<close>

function str_nat :: "nat \<Rightarrow> pystr" where
  "str_nat n = (if n < 10 then [48 + n] else str_nat (n div 10) @ [48 + n mod 10])"
  by pat_completeness auto
termination
  by (relation "measure id") auto

declare str_nat.simps [simp del]

text \<open>
  The characters \<open>str.strip()\<close> removes when called without argument: the code points
  Python treats as whitespace.
\<close>

definition is_space :: "nat \<Rightarrow> bool" where
  "is_space c \<longleftrightarrow>
     (9 \<le> c \<and> c \<le> 13) \<or> (28 \<le> c \<and> c \<le> 32) \<or> c = 133 \<or> c = 160 \<or> c = 5760 \<or>
     (8192 \<le> c \<and> c \<le> 8202) \<or> c = 8232 \<or> c = 8233 \<or> c = 8239 \<or> c = 8287 \<or> c = 12288"

definition strip :: "pystr \<Rightarrow> pystr" where
  "strip s = rev (dropWhile is_space (rev (dropWhile is_space s)))"

text \<open>\<open>os.path.join(a, b)\<close> on a POSIX system.\<close>

definition path_join :: "pystr \<Rightarrow> pystr \<Rightarrow> pystr" where
  "path_join a b =
     (if b \<noteq> [] \<and> hd b = 47 then b
      else if a = [] \<or> last a = 47 then a @ b
      else a @ [47] @ b)"

subsection \<open>Exceptions\<close>

text \<open>
  An exception is its class and the text \<open>str(e)\<close>. The classes are those the handlers
  of the source tell apart, all of them subclasses of \<open>Exception\<close>; the JSON decoding
  error of the HTTP library derives from both its request exception and \<open>ValueError\<close>.
  Signals that are not subclasses of \<open>Exception\<close> (a keyboard interrupt, interpreter
  exit) are not failure modes of the tool and are outside the model.
\<close>

datatype exc_class =
    PlainException | FileNotFoundError | ValueError | KeyError | AttributeError
  | TypeError | OSError | RequestException | RequestsJSONDecodeError

datatype exc = Exc exc_class pystr

fun exc_str :: "exc \<Rightarrow> pystr" where
  "exc_str (Exc c m) = m"

fun isinstance :: "exc \<Rightarrow> exc_class \<Rightarrow> bool" where
  "isinstance (Exc c m) k \<longleftrightarrow>
     k = PlainException \<or> c = k \<or>
     (c = RequestsJSONDecodeError \<and> (k = RequestException \<or> k = ValueError)) \<or>
     (c = FileNotFoundError \<and> k = OSError) \<or> (c = RequestException \<and> k = OSError) \<or>
     (c = RequestsJSONDecodeError \<and> k = OSError)"

text \<open>Sequencing of steps that may raise: the first exception ends the computation.\<close>

definition and_then :: "exc + 'a \<Rightarrow> ('a \<Rightarrow> exc + 'b) \<Rightarrow> exc + 'b" where
  "and_then r f = (case r of Inl e \<Rightarrow> Inl e | Inr x \<Rightarrow> f x)"

subsection \<open>Decoded JSON\<close>

text \<open>
  What \<open>response.json()\<close> returns: \<open>None\<close>, a bool, an int, a float (kept as mantissa
  and exponent; no arithmetic is done on it), a str, a list or a dict. A dict is given by
  its items; its keys are strings and occur once.
\<close>

datatype pyval =
    PNone | PBool bool | PInt int | PFloat int int | PStr pystr
  | PList "pyval list" | PDict "(pystr \<times> pyval) list"

text \<open>
  The operations the tool applies to the decoded body. On a value of the wrong type
  the interpreter raises \<open>TypeError\<close>; its message depends on the interpreter version and
  is a parameter \<open>tmsg\<close> of the operations.
\<close>

datatype pyop = OpIn | OpLen | OpGetItem

type_synonym type_error_text = "pyop \<Rightarrow> pyval \<Rightarrow> pystr"

text \<open>\<open>key in v\<close> for a string \<open>key\<close>.\<close>

fun py_in :: "type_error_text \<Rightarrow> pystr \<Rightarrow> pyval \<Rightarrow> exc + bool" where
  "py_in tmsg key (PDict items) = Inr (key \<in> set (map fst items))"
| "py_in tmsg key (PList xs) = Inr (PStr key \<in> set xs)"
| "py_in tmsg key (PStr s) = Inr (sublist key s)"
| "py_in tmsg key v = Inl (Exc TypeError (tmsg OpIn v))"

text \<open>\<open>len(v)\<close>.\<close>

fun py_len :: "type_error_text \<Rightarrow> pyval \<Rightarrow> exc + nat" where
  "py_len tmsg (PDict items) = Inr (length items)"
| "py_len tmsg (PList xs) = Inr (length xs)"
| "py_len tmsg (PStr s) = Inr (length s)"
| "py_len tmsg v = Inl (Exc TypeError (tmsg OpLen v))"

text \<open>
  \<open>v[key]\<close> for one of the string literals \<open>'choices'\<close>, \<open>'message'\<close>, \<open>'content'\<close>; the
  \<open>KeyError\<close> of a missing key prints as the key in single quotes.
\<close>

fun py_getitem :: "type_error_text \<Rightarrow> pyval \<Rightarrow> pystr \<Rightarrow> exc + pyval" where
  "py_getitem tmsg (PDict items) key =
     (case map_of items key of
        Some v \<Rightarrow> Inr v
      | None \<Rightarrow> Inl (Exc KeyError ([39] @ key @ [39])))"
| "py_getitem tmsg v key = Inl (Exc TypeError (tmsg OpGetItem v))"

text \<open>
  \<open>v[0]\<close>. The tool evaluates it only after \<open>len(v) > 0\<close>; an empty sequence raises
  \<open>IndexError\<close>, a subclass of \<open>Exception\<close> that no handler names. A dict decoded from
  JSON has no integer key, so indexing it by \<open>0\<close> raises \<open>KeyError\<close>, printed \<open>0\<close>.
\<close>

fun py_first :: "type_error_text \<Rightarrow> pyval \<Rightarrow> exc + pyval" where
  "py_first tmsg (PList xs) =
     (case xs of [] \<Rightarrow> Inl (Exc PlainException (py ''list index out of range'')) | x # _ \<Rightarrow> Inr x)"
| "py_first tmsg (PStr s) =
     (case s of [] \<Rightarrow> Inl (Exc PlainException (py ''string index out of range''))
      | c # _ \<Rightarrow> Inr (PStr [c]))"
| "py_first tmsg (PDict items) = Inl (Exc KeyError (py ''0''))"
| "py_first tmsg v = Inl (Exc TypeError (tmsg OpGetItem v))"

section \<open>The environment of the PDF query tool\<close>

text \<open>
  The request \<open>_query_openrouter_ai\<close> posts, and the response as far as the tool reads it:
  the status code, the text of the error \<open>raise_for_status\<close> raises for it, and the
  outcome of \<open>response.json()\<close>.
\<close>

record request =
  req_url :: pystr
  req_headers :: "(pystr \<times> pystr) list"
  req_model :: pystr
  req_messages :: "(pystr \<times> pystr) list"
  req_max_tokens :: nat
  req_temperature :: pystr
  req_timeout :: nat

record response =
  status_code :: nat
  http_error_text :: pystr
  json_result :: "exc + pyval"

text \<open>
  Everything outside the tool that \<open>forward\<close> consults: the secrets store, the process
  environment, the file system, the PDF library (a document is the sequence of its pages,
  each the outcome of loading the page and reading its text) and the remote endpoint.
\<close>

record world =
  secrets_api_key :: "exc + pystr"
  env_api_key :: "pystr option"
  path_exists :: "pystr \<Rightarrow> bool"
  fitz_open :: "pystr \<Rightarrow> exc + (exc + pystr) list"
  requests_post :: "request \<Rightarrow> exc + response"
  type_error_msg :: type_error_text

section \<open>The PDF query tool (tools/ai\_pdf\_tool.py)\<close>

subsection \<open>\<open>_extract_pdf_text\<close>\<close>

definition page_marker :: "nat \<Rightarrow> pystr" where
  "page_marker n = py ''\<newline>--- Page '' @ str_nat n @ py '' ---\<newline>''"

text \<open>
  The loop over \<open>range(len(doc))\<close>: \<open>page_num\<close> is the index of the next page and
  \<open>text_content\<close> the text accumulated so far.
\<close>

fun extract_pages :: "nat \<Rightarrow> (exc + pystr) list \<Rightarrow> pystr \<Rightarrow> exc + pystr" where
  "extract_pages page_num [] text_content = Inr text_content"
| "extract_pages page_num (page # rest) text_content =
     (case page of
        Inl e \<Rightarrow> Inl e
      | Inr page_text \<Rightarrow>
          extract_pages (page_num + 1) rest
            (text_content @ page_marker (page_num + 1) @ page_text))"

definition extract_pdf_text :: "world \<Rightarrow> pystr \<Rightarrow> exc + pystr" where
  "extract_pdf_text w pdf_path =
     (case and_then (fitz_open w pdf_path) (\<lambda>doc. extract_pages 0 doc []) of
        Inl e \<Rightarrow> Inl (Exc PlainException (py ''Failed to extract text from PDF: '' @ exc_str e))
      | Inr text_content \<Rightarrow> Inr text_content)"

subsection \<open>\<open>_create_ai_prompt\<close>\<close>

definition preprompt :: pystr where
  "preprompt = py (
     ''You are an expert document analyst with exceptional reading comprehension skills. '' @
     ''Your task is to carefully analyze the provided PDF document content and answer '' @
     ''questions about it with precision and clarity.\<newline>'' @
     ''\<newline>'' @
     ''INSTRUCTIONS:\<newline>'' @
     ''- Read and understand the entire document content thoroughly\<newline>'' @
     ''- Provide accurate, evidence-based answers using only information from the document\<newline>'' @
     ''- If information is not available in the document, clearly state this\<newline>'' @
     ''- Quote relevant sections when appropriate to support your answers\<newline>'' @
     ''- Maintain objectivity and avoid making assumptions beyond what's written\<newline>'' @
     ''- Structure your response clearly and concisely\<newline>'' @
     ''\<newline>'' @
     ''DOCUMENT CONTENT:\<newline>'')"

definition user_prompt :: "pystr \<Rightarrow> pystr" where
  "user_prompt user_query =
     py ''\<newline>\<newline>USER QUESTION: '' @ user_query @
     py ''\<newline>\<newline>Please provide a comprehensive answer based on the document content above.''"

definition create_ai_prompt :: "pystr \<Rightarrow> pystr \<Rightarrow> pystr" where
  "create_ai_prompt pdf_text user_query = preprompt @ pdf_text @ user_prompt user_query"

subsection \<open>\<open>_query_openrouter_ai\<close>\<close>

definition build_request :: "pystr \<Rightarrow> pystr \<Rightarrow> request" where
  "build_request prompt api_key =
     \<lparr> req_url = py ''https://openrouter.ai/api/v1/chat/completions'',
       req_headers = [(py ''Authorization'', py ''Bearer '' @ api_key),
                      (py ''Content-Type'', py ''application/json'')],
       req_model = py ''google/gemini-2.5-pro'',
       req_messages = [(py ''user'', prompt)],
       req_max_tokens = 1000000,
       req_temperature = py ''0.1'',
       req_timeout = 60 \<rparr>"

definition raise_for_status :: "response \<Rightarrow> exc + unit" where
  "raise_for_status r =
     (if 400 \<le> status_code r \<and> status_code r < 600
      then Inl (Exc RequestException (http_error_text r)) else Inr ())"

definition no_response_msg :: pystr where
  "no_response_msg = py ''Error: No response received from AI service.''"

text \<open>The body of the \<open>try\<close> block, after the request has been built.\<close>

definition read_completion :: "type_error_text \<Rightarrow> pyval \<Rightarrow> exc + pyval" where
  "read_completion tmsg result =
     and_then (py_in tmsg (py ''choices'') result) (\<lambda>has_choices.
       if \<not> has_choices then Inr (PStr no_response_msg)
       else
         and_then (py_getitem tmsg result (py ''choices'')) (\<lambda>choices.
         and_then (py_len tmsg choices) (\<lambda>n.
           if n > 0 then
             and_then (py_getitem tmsg result (py ''choices'')) (\<lambda>choices.
             and_then (py_first tmsg choices) (\<lambda>choice.
             and_then (py_getitem tmsg choice (py ''message'')) (\<lambda>message.
             py_getitem tmsg message (py ''content''))))
           else Inr (PStr no_response_msg))))"

definition query_try :: "world \<Rightarrow> request \<Rightarrow> exc + pyval" where
  "query_try w req =
     and_then (requests_post w req) (\<lambda>response.
     and_then (raise_for_status response) (\<lambda>_.
     and_then (json_result response) (\<lambda>result.
     read_completion (type_error_msg w) result)))"

text \<open>
  The function returns its outcome together with the requests it has posted. The two
  handlers wrap a request exception and a \<open>KeyError\<close> in a plain \<open>Exception\<close>; any other
  exception passes through.
\<close>

definition query_openrouter_ai :: "world \<Rightarrow> pystr \<Rightarrow> pystr \<Rightarrow> (exc + pyval) \<times> request list" where
  "query_openrouter_ai w prompt api_key =
     (let req = build_request prompt api_key in
      (case query_try w req of
         Inl e \<Rightarrow>
           if isinstance e RequestException
           then Inl (Exc PlainException (py ''API request failed: '' @ exc_str e))
           else if isinstance e KeyError
           then Inl (Exc PlainException (py ''Unexpected API response format: '' @ exc_str e))
           else Inl e
       | Inr v \<Rightarrow> Inr v,
       [req]))"

subsection \<open>\<open>forward\<close>\<close>

text \<open>
  The API key: the secrets store first; a \<open>KeyError\<close> or \<open>AttributeError\<close> there falls back
  to the environment variable (\<open>None\<close> when unset); any other exception leaves the
  \<open>try\<close> block.
\<close>

definition get_api_key :: "world \<Rightarrow> exc + pystr option" where
  "get_api_key w =
     (case secrets_api_key w of
        Inr k \<Rightarrow> Inr (Some k)
      | Inl e \<Rightarrow>
          if isinstance e KeyError \<or> isinstance e AttributeError
          then Inr (env_api_key w) else Inl e)"

definition api_key_required_msg :: pystr where
  "api_key_required_msg = py (''Error: OpenRouter API key is required. Configure it in '' @
     ''Streamlit secrets or set OPENROUTER_API_KEY environment variable.'')"

definition no_text_msg :: pystr where
  "no_text_msg = py ''Error: No text could be extracted from the PDF file.''"

definition file_not_found_msg :: "pystr \<Rightarrow> pystr" where
  "file_not_found_msg pdf_path = py ''Error: PDF file not found: '' @ pdf_path"

text \<open>The body of the outer \<open>try\<close> block.\<close>

definition forward_try :: "world \<Rightarrow> pystr \<Rightarrow> pystr \<Rightarrow> (exc + pyval) \<times> request list" where
  "forward_try w pdf_path query =
     (case get_api_key w of
        Inl e \<Rightarrow> (Inl e, [])
      | Inr None \<Rightarrow> (Inr (PStr api_key_required_msg), [])
      | Inr (Some api_key) \<Rightarrow>
          if api_key = [] then (Inr (PStr api_key_required_msg), [])
          else if \<not> path_exists w pdf_path then (Inr (PStr (file_not_found_msg pdf_path)), [])
          else
            (case extract_pdf_text w pdf_path of
               Inl e \<Rightarrow> (Inl e, [])
             | Inr pdf_text \<Rightarrow>
                 if strip pdf_text = [] then (Inr (PStr no_text_msg), [])
                 else query_openrouter_ai w (create_ai_prompt pdf_text query) api_key))"

text \<open>
  The three handlers of \<open>forward\<close>, in the order of the source. An exception that none of
  them matches would propagate to the caller.
\<close>

definition forward_except :: "exc \<Rightarrow> exc + pyval" where
  "forward_except e =
     (if isinstance e FileNotFoundError then Inr (PStr (py ''Error: '' @ exc_str e))
      else if isinstance e ValueError then Inr (PStr (py ''Error: '' @ exc_str e))
      else if isinstance e PlainException
      then Inr (PStr (py ''Error processing request: '' @ exc_str e))
      else Inl e)"

definition forward :: "world \<Rightarrow> pystr \<Rightarrow> pystr \<Rightarrow> (exc + pyval) \<times> request list" where
  "forward w pdf_path query =
     (case forward_try w pdf_path query of
        (Inl e, posted) \<Rightarrow> (forward_except e, posted)
      | (Inr v, posted) \<Rightarrow> (Inr v, posted))"

section \<open>The web application (streamlit\_app.py)\<close>

subsection \<open>The scratch directory\<close>

text \<open>
  The file system as the application uses it: the working directory; the scratch directory
  \<open>temp\<close> below it, absent or listed by its entries, each a name and whether
  \<open>os.path.isfile\<close> holds of it; and the reactions of the operating system, namely the
  exception, if any, that creating the directory (finding the working directory and
  making \<open>temp\<close> below it), listing it, removing a path or writing a path raises. Writes
  that succeed are recorded in order, each with its path and bytes.
\<close>

record dir_entry =
  entry_name :: pystr
  entry_is_file :: bool

record filesystem =
  cwd :: pystr
  scratch :: "dir_entry list option"
  makedirs_error :: "exc option"
  listdir_error :: "exc option"
  remove_error :: "pystr \<Rightarrow> exc option"
  write_error :: "pystr \<Rightarrow> exc option"
  written :: "(pystr \<times> bytes) list"

definition create_temp_directory :: "filesystem \<Rightarrow> exc + pystr \<times> filesystem" where
  "create_temp_directory fs =
     (let temp_dir = path_join (cwd fs) (py ''temp'') in
      case makedirs_error fs of
        Some e \<Rightarrow> Inl e
      | None \<Rightarrow>
          Inr (temp_dir,
               fs\<lparr>scratch := Some (case scratch fs of None \<Rightarrow> [] | Some entries \<Rightarrow> entries)\<rparr>))"








subsection \<open>\<open>handle_multiple_pdf_uploads\<close>\<close>

record uploaded_file =
  uf_name :: pystr
  uf_type :: pystr
  uf_data :: bytes
  uf_size :: "nat option"

record file_info =
  fi_path :: pystr
  fi_name :: pystr
  fi_size :: nat

text \<open>\<open>open(path, "wb")\<close> followed by the write of the whole content.\<close>

definition write_file :: "filesystem \<Rightarrow> pystr \<Rightarrow> bytes \<Rightarrow> exc + filesystem" where
  "write_file fs path data =
     (case write_error fs path of
        Some e \<Rightarrow> Inl e
      | None \<Rightarrow> Inr (fs\<lparr>written := written fs @ [(path, data)]\<rparr>))"

definition not_pdf_msg :: "pystr \<Rightarrow> pystr" where
  "not_pdf_msg name =
     py ''Le fichier '' @ [39] @ name @ [39] @
     py '' n'est pas un fichier PDF et sera ignor'' @ [233] @ py ''.''"

definition upload_info :: "pystr \<Rightarrow> uploaded_file \<Rightarrow> file_info" where
  "upload_info temp_dir uploaded =
     \<lparr> fi_path = path_join temp_dir (py ''uploaded_'' @ uf_name uploaded),
       fi_name = uf_name uploaded,
       fi_size = (case uf_size uploaded of Some n \<Rightarrow> n | None \<Rightarrow> 0) \<rparr>"

text \<open>
  The loop over the uploaded files: \<open>processed\<close> is the list built so far and \<open>shown\<close>
  the error notices displayed so far. A write that raises ends the function with that
  exception.
\<close>

fun upload_loop ::
  "pystr \<Rightarrow> uploaded_file list \<Rightarrow> file_info list \<Rightarrow> filesystem \<Rightarrow> pystr list
     \<Rightarrow> (exc + file_info list) \<times> filesystem \<times> pystr list" where
  "upload_loop temp_dir [] processed fs shown = (Inr processed, fs, shown)"
| "upload_loop temp_dir (uploaded # rest) processed fs shown =
     (if uf_type uploaded = py ''application/pdf'' then
        (let temp_file_path = path_join temp_dir (py ''uploaded_'' @ uf_name uploaded) in
         case write_file fs temp_file_path (uf_data uploaded) of
           Inl e \<Rightarrow> (Inl e, fs, shown)
         | Inr fs' \<Rightarrow>
             upload_loop temp_dir rest (processed @ [upload_info temp_dir uploaded]) fs' shown)
      else upload_loop temp_dir rest processed fs (shown @ [not_pdf_msg (uf_name uploaded)]))"

definition handle_multiple_pdf_uploads ::
  "filesystem \<Rightarrow> uploaded_file list option
     \<Rightarrow> (exc + file_info list) \<times> filesystem \<times> pystr list" where
  "handle_multiple_pdf_uploads fs uploaded_files =
     (case uploaded_files of
        None \<Rightarrow> (Inr [], fs, [])
      | Some files \<Rightarrow>
          (case create_temp_directory fs of
             Inl e \<Rightarrow> (Inl e, fs, [])
           | Inr (temp_dir, fs1) \<Rightarrow> upload_loop temp_dir files [] fs1 []))"

subsection \<open>The chat history\<close>

text \<open>
  A chat message is a dict with the keys \<open>role\<close> and \<open>content\<close> and, depending on the
  place that builds it, \<open>has_pdfs\<close> and \<open>pdf_files\<close> or \<open>file_name\<close>; an absent key is
  \<open>None\<close>.
\<close>

record message =
  role :: pystr
  content :: pystr
  has_pdfs :: "bool option"
  pdf_files :: "file_info list option"
  file_name :: "pystr option"

definition greeting_text :: pystr where
  "greeting_text =
     [128075] @ py '' Bienvenue ! Je suis l'' @ [224] @ py '' pour vous aider '' @ [224] @
     py '' analyser des PDF et g'' @ [233] @ py ''n'' @ [233] @ py ''rer des documents. '' @
     py ''Veuillez t'' @ [233] @ py ''l'' @ [233] @
     py ''charger un fichier PDF ou poser une question.''"

definition greeting_message :: message where
  "greeting_message =
     \<lparr> role = py ''assistant'', content = greeting_text,
       has_pdfs = None, pdf_files = None, file_name = None \<rparr>"

text \<open>Initialisation: only when the session state has no \<open>chat_history\<close> yet.\<close>

definition init_chat_history :: "message list option \<Rightarrow> message list" where
  "init_chat_history stored =
     (case stored of None \<Rightarrow> [] @ [greeting_message] | Some history \<Rightarrow> history)"

definition user_message :: "pystr \<Rightarrow> file_info list \<Rightarrow> message" where
  "user_message message_text processed_files =
     \<lparr> role = py ''user'',
       content =
         (if strip message_text \<noteq> [] then message_text
          else str_nat (length processed_files) @ py '' fichier(s) PDF t'' @ [233] @ py ''l'' @
               [233] @ py ''charg'' @ [233] @ py ''(s) pour analyse''),
       has_pdfs = Some (length processed_files > 0),
       pdf_files = Some processed_files,
       file_name = None \<rparr>"

definition generated_file_message :: "pystr \<Rightarrow> message" where
  "generated_file_message file =
     \<lparr> role = py ''system'',
       content = py ''Fichier g'' @ [233] @ py ''n'' @ [233] @ py ''r'' @ [233] @
                 py '' disponible : '' @ file,
       has_pdfs = None, pdf_files = None, file_name = Some file \<rparr>"

definition assistant_message :: "pystr \<Rightarrow> message" where
  "assistant_message combined_response =
     \<lparr> role = py ''assistant'', content = combined_response,
       has_pdfs = None, pdf_files = None, file_name = None \<rparr>"

text \<open>The four operations \<open>main\<close> performs on an initialised history.\<close>

definition append_user_message :: "message list \<Rightarrow> pystr \<Rightarrow> file_info list \<Rightarrow> message list" where
  "append_user_message history message_text processed_files =
     history @ [user_message message_text processed_files]"

definition append_generated_file_message :: "message list \<Rightarrow> pystr \<Rightarrow> message list" where
  "append_generated_file_message history file = history @ [generated_file_message file]"

definition append_assistant_message :: "message list \<Rightarrow> pystr \<Rightarrow> message list" where
  "append_assistant_message history combined_response =
     history @ [assistant_message combined_response]"

definition clear_chat_history :: "message list \<Rightarrow> message list" where
  "clear_chat_history history = [] @ [greeting_message]"

text \<open>
  The generated files not yet announced in the history: the names in the scratch
  directory that end in \<open>.xlsx\<close> or \<open>.docx\<close>, without those some message carries as its
  \<open>file_name\<close>. The source iterates over a set; the model takes the order of the listing.
\<close>

definition new_generated_files :: "message list \<Rightarrow> pystr list \<Rightarrow> pystr list" where
  "new_generated_files history listing =
     remdups (filter (\<lambda>f. (suffix (py ''.xlsx'') f \<or> suffix (py ''.docx'') f) \<and>
                          Some f \<notin> set (map file_name history)) listing)"

text \<open>
  One submitted chat input: the text, the files \<open>handle_multiple_pdf_uploads\<close> returned,
  the answer \<open>process_user_input\<close> produced (one string, or the answers per file joined),
  and the listing of the scratch directory after the agent has run.
\<close>

record chat_turn =
  turn_text :: pystr
  turn_files :: "file_info list"
  turn_response :: pystr
  turn_listing :: "pystr list"

definition chat_turn_history :: "message list \<Rightarrow> chat_turn \<Rightarrow> message list" where
  "chat_turn_history history t =
     (let h1 = append_user_message history (turn_text t) (turn_files t);
          h2 = (if turn_files t \<noteq> [] then h1
                else foldl append_generated_file_message h1
                       (new_generated_files h1 (turn_listing t)))
      in append_assistant_message h2 (turn_response t))"

text \<open>The clear button is offered while the history is not empty.\<close>

definition clear_button :: "message list \<Rightarrow> bool \<Rightarrow> message list" where
  "clear_button history clicked =
     (if history \<noteq> [] then (if clicked then clear_chat_history history else history)
      else history)"

text \<open>
  The chat section of one run of \<open>main\<close>: \<open>stored\<close> is the history in the session state
  (\<open>None\<close> before the first run), \<open>run_turn\<close> the chat input if one was submitted and
  \<open>run_clear_clicked\<close> whether the clear button was pressed. A processed input ends the
  run with \<open>st.rerun()\<close>, before the clear button is reached.
\<close>

record run_input =
  run_turn :: "chat_turn option"
  run_clear_clicked :: bool

definition main_chat :: "message list option \<Rightarrow> run_input \<Rightarrow> message list" where
  "main_chat stored inp =
     (let history = init_chat_history stored in
      case run_turn inp of
        None \<Rightarrow> clear_button history (run_clear_clicked inp)
      | Some t \<Rightarrow>
          if strip (turn_text t) \<noteq> [] \<or> turn_files t \<noteq> []
          then chat_turn_history history t
          else clear_button history (run_clear_clicked inp))"

text \<open>The session over several runs, each starting from the history the last one left.\<close>

fun main_runs :: "message list option \<Rightarrow> run_input list \<Rightarrow> message list option" where
  "main_runs stored [] = stored"
| "main_runs stored (inp # inps) = main_runs (Some (main_chat stored inp)) inps"

definition chat_invariant :: "message list \<Rightarrow> bool" where
  "chat_invariant history \<longleftrightarrow> history \<noteq> [] \<and> hd history = greeting_message"

section \<open>Example environments\<close>

text \<open>
  Concrete environments on which the theorems below are instantiated: the secrets store
  answers \<open>secret\<close>, the environment variable is \<open>env_key\<close>, every path exists or none
  does, every path opens as the document \<open>doc\<close>, and the remote endpoint answers every
  request with status 200 and the JSON body \<open>body\<close>.
\<close>

definition example_tmsg :: type_error_text where
  "example_tmsg op v = py ''unsupported operand type''"

definition ok_response :: "pyval \<Rightarrow> response" where
  "ok_response body = \<lparr> status_code = 200, http_error_text = [], json_result = Inr body \<rparr>"

definition chat_completion :: "pyval \<Rightarrow> pyval" where
  "chat_completion answer =
     PDict [(py ''choices'', PList [PDict [(py ''message'', PDict [(py ''content'', answer)])]])]"

definition example_world ::
  "exc + pystr \<Rightarrow> pystr option \<Rightarrow> bool \<Rightarrow> (exc + pystr) list \<Rightarrow> pyval \<Rightarrow> world" where
  "example_world secret env_key present doc body =
     \<lparr> secrets_api_key = secret,
       env_api_key = env_key,
       path_exists = (\<lambda>p. present),
       fitz_open = (\<lambda>p. Inr doc),
       requests_post = (\<lambda>req. Inr (ok_response body)),
       type_error_msg = example_tmsg \<rparr>"

definition two_page_doc :: "(exc + pystr) list" where
  "two_page_doc = [Inr (py ''Hi''), Inr (py ''Yo'')]"

definition scanned_doc :: "(exc + pystr) list" where
  "scanned_doc = [Inr []]"

text \<open>
  Example file systems, with the working directory \<open>/app\<close>: the scratch directory as
  given, no failure on creating or listing it, and the failures on removing and writing
  as given.
\<close>

definition example_fs ::
  "dir_entry list option \<Rightarrow> (pystr \<Rightarrow> exc option) \<Rightarrow> (pystr \<Rightarrow> exc option) \<Rightarrow> filesystem" where
  "example_fs entries rm wr =
     \<lparr> cwd = py ''/app'', scratch = entries, makedirs_error = None, listdir_error = None,
       remove_error = rm, write_error = wr, written = [] \<rparr>"




definition no_error :: "pystr \<Rightarrow> exc option" where
  "no_error path = None"


definition example_uploads :: "uploaded_file list" where
  "example_uploads =
     [\<lparr> uf_name = py ''a.pdf'', uf_type = py ''application/pdf'', uf_data = [37, 80, 68, 70],
        uf_size = Some 4 \<rparr>,
      \<lparr> uf_name = py ''notes.txt'', uf_type = py ''text/plain'', uf_data = [104, 105],
        uf_size = Some 2 \<rparr>]"

definition example_turn :: chat_turn where
  "example_turn =
     \<lparr> turn_text = py ''Make a report'', turn_files = [], turn_response = py ''Done.'',
       turn_listing = [py ''report.xlsx'', py ''uploaded_a.pdf''] \<rparr>"

definition example_inputs :: "run_input list" where
  "example_inputs =
     [\<lparr> run_turn = None, run_clear_clicked = False \<rparr>,
      \<lparr> run_turn = Some example_turn, run_clear_clicked = False \<rparr>]"

section \<open>Properties of the PDF query tool\<close>

subsection \<open>Auxiliary facts\<close>

lemmas example_defs = example_world_def ok_response_def chat_completion_def example_tmsg_def

lemma strip_empty_iff: "strip s = [] \<longleftrightarrow> (\<forall>c\<in>set s. is_space c)"
proof
  assume "strip s = []"
  then have d: "\<forall>c\<in>set (dropWhile is_space s). is_space c"
    by (simp add: strip_def)
  have "dropWhile is_space s = []"
  proof (rule ccontr)
    assume ne: "dropWhile is_space s \<noteq> []"
    then have "\<not> is_space (hd (dropWhile is_space s))" by (rule hd_dropWhile)
    moreover from ne have "hd (dropWhile is_space s) \<in> set (dropWhile is_space s)" by simp
    ultimately show False using d by blast
  qed
  then show "\<forall>c\<in>set s. is_space c" by simp
next
  assume "\<forall>c\<in>set s. is_space c"
  then have "dropWhile is_space s = []" by simp
  then show "strip s = []" unfolding strip_def by (simp del: dropWhile_eq_Nil_conv)
qed

lemma page_marker_has_dash: "45 \<in> set (page_marker n)"
  by (simp add: page_marker_def py_def)

lemma marked_text_not_blank: "strip (page_marker n @ t) \<noteq> []"
proof -
  have "45 \<in> set (page_marker n @ t)" using page_marker_has_dash[of n] by simp
  moreover have "\<not> is_space 45" by (simp add: is_space_def)
  ultimately show ?thesis unfolding strip_empty_iff by blast
qed

lemma extract_pages_texts:
  "extract_pages n (map Inr texts) acc =
     Inr (acc @ concat (map (\<lambda>(i, t). page_marker (i + 1) @ t) (enumerate n texts)))"
  by (induction texts arbitrary: n acc) simp_all

lemma extract_pdf_text_texts:
  "fitz_open w pdf_path = Inr (map Inr texts) \<Longrightarrow>
   extract_pdf_text w pdf_path =
     Inr (concat (map (\<lambda>(i, t). page_marker (i + 1) @ t) (enumerate 0 texts)))"
  by (simp add: extract_pdf_text_def and_then_def extract_pages_texts)

lemma strip_pages_nonempty:
  assumes "texts \<noteq> []"
  shows "strip (concat (map (\<lambda>(i, t). page_marker (i + 1) @ t) (enumerate n texts))) \<noteq> []"
proof -
  from assms obtain t ts where "texts = t # ts" by (cases texts) auto
  then show ?thesis using marked_text_not_blank by simp
qed

text \<open>With a key, an existing path and a text that is not blank, \<open>forward\<close> queries the endpoint.\<close>

lemma forward_try_queries:
  assumes "get_api_key w = Inr (Some api_key)" and "api_key \<noteq> []"
    and "path_exists w pdf_path"
    and "extract_pdf_text w pdf_path = Inr pdf_text" and "strip pdf_text \<noteq> []"
  shows "forward_try w pdf_path query =
           query_openrouter_ai w (create_ai_prompt pdf_text query) api_key"
  using assms by (simp add: forward_try_def)

text \<open>The example document, opened under any path in an example environment.\<close>

lemma two_page_text:
  "extract_pdf_text (example_world secret env_key present two_page_doc body) p =
     Inr (py ''\<newline>--- Page 1 ---\<newline>Hi\<newline>--- Page 2 ---\<newline>Yo'')"
  by (simp add: extract_pdf_text_def and_then_def example_world_def two_page_doc_def
      page_marker_def str_nat.simps py_def)

lemma two_page_text_not_blank:
  "strip (py ''\<newline>--- Page 1 ---\<newline>Hi\<newline>--- Page 2 ---\<newline>Yo'') \<noteq> []"
  by (simp add: strip_empty_iff is_space_def py_def)

lemma example_key:
  "get_api_key (example_world (Inr (py ''k1'')) env_key present doc body) = Inr (Some (py ''k1''))"
  "py ''k1'' \<noteq> []"
  by (simp_all add: get_api_key_def example_world_def py_def)


text \<open>Every request \<open>forward\<close> posts carries the prompt built from the extracted text.\<close>

lemma forward_posts_built_prompt:
  "r \<in> set (snd (forward w pdf_path query)) \<Longrightarrow>
   \<exists>pdf_text api_key. extract_pdf_text w pdf_path = Inr pdf_text \<and>
      r = build_request (create_ai_prompt pdf_text query) api_key"
  by (auto simp: forward_def forward_try_def query_openrouter_ai_def Let_def
      split: sum.splits option.splits if_splits prod.splits)









subsection \<open>Extraction\<close>

text \<open>
  Claim C6. Text extraction is deterministic and keeps the page order: its outcome depends
  on nothing but the document the PDF library opens, so two runs on the same document (in
  whatever state the rest of the environment is, under whatever path) give the same
  outcome; and for a document whose pages have the texts \<open>texts\<close> the output is the
  concatenation, in page order, of each page's marker followed by that page's text.
\<close>

theorem extract_pdf_text_deterministic:
  "(fitz_open w1 p1 = fitz_open w2 p2 \<longrightarrow> extract_pdf_text w1 p1 = extract_pdf_text w2 p2) \<and>
   (fitz_open w1 p1 = Inr (map Inr texts) \<longrightarrow>
      extract_pdf_text w1 p1 =
        Inr (concat (map (\<lambda>(i, t). page_marker (i + 1) @ t) (enumerate 0 texts))))"
  by (simp add: extract_pdf_text_def and_then_def extract_pages_texts)

theorem extract_pdf_text_deterministic_witness:
  "fitz_open (example_world (Inr (py ''k1'')) None True two_page_doc PNone) (py ''a.pdf'')
     = fitz_open (example_world (Inl (Exc KeyError [])) (Some (py ''k2'')) False two_page_doc (PInt 1))
         (py ''b.pdf'') \<and>
   fitz_open (example_world (Inr (py ''k1'')) None True two_page_doc PNone) (py ''a.pdf'')
     = Inr (map Inr [py ''Hi'', py ''Yo'']) \<and>
   extract_pdf_text (example_world (Inr (py ''k1'')) None True two_page_doc PNone) (py ''a.pdf'')
     = extract_pdf_text
         (example_world (Inl (Exc KeyError [])) (Some (py ''k2'')) False two_page_doc (PInt 1))
         (py ''b.pdf'') \<and>
   extract_pdf_text (example_world (Inr (py ''k1'')) None True two_page_doc PNone) (py ''a.pdf'')
     = Inr (py ''\<newline>--- Page 1 ---\<newline>Hi\<newline>--- Page 2 ---\<newline>Yo'')"
  using extract_pdf_text_deterministic
    [of "example_world (Inr (py ''k1'')) None True two_page_doc PNone" "py ''a.pdf''"
        "example_world (Inl (Exc KeyError [])) (Some (py ''k2'')) False two_page_doc (PInt 1)"
        "py ''b.pdf''" "[py ''Hi'', py ''Yo'']"]
  by (auto simp add: example_world_def two_page_doc_def page_marker_def str_nat.simps py_def)

subsection \<open>The prompt\<close>

text \<open>
  Claim C5, as amended. For every extracted text and question the prompt is the fixed
  preamble, followed by the whole text, followed by the fixed heading \<open>USER QUESTION:\<close>,
  the question and a fixed closing request; every request \<open>forward\<close> posts carries, as
  its single message, the prompt so built from the whole extracted text; and whenever
  \<open>forward\<close> has a key, the path exists and the document opens with the page texts
  \<open>texts\<close> (at least one page), exactly one request is posted, with the extracted text
  being the page texts in page order, each preceded by its page marker. Nothing is cut at
  any size.
\<close>

theorem prompt_is_whole_document:
  "create_ai_prompt pdf_text query =
     preprompt @ pdf_text @ py ''\<newline>\<newline>USER QUESTION: '' @ query @
     py ''\<newline>\<newline>Please provide a comprehensive answer based on the document content above.'' \<and>
   (\<forall>r\<in>set (snd (forward w pdf_path query)).
      \<exists>extracted. extract_pdf_text w pdf_path = Inr extracted \<and>
        req_messages r = [(py ''user'', create_ai_prompt extracted query)]) \<and>
   (get_api_key w = Inr (Some api_key) \<and> api_key \<noteq> [] \<and> path_exists w pdf_path \<and>
    fitz_open w pdf_path = Inr (map Inr texts) \<and> texts \<noteq> [] \<longrightarrow>
      map req_messages (snd (forward w pdf_path query)) =
        [[(py ''user'',
           preprompt @
           concat (map (\<lambda>(i, t). page_marker (i + 1) @ t) (enumerate 0 texts)) @
           py ''\<newline>\<newline>USER QUESTION: '' @ query @
           py ''\<newline>\<newline>Please provide a comprehensive answer based on the document content above.'')]])"
proof (intro conjI ballI impI)
  show "create_ai_prompt pdf_text query =
     preprompt @ pdf_text @ py ''\<newline>\<newline>USER QUESTION: '' @ query @
     py ''\<newline>\<newline>Please provide a comprehensive answer based on the document content above.''"
    by (simp add: create_ai_prompt_def user_prompt_def)
next
  fix r assume "r \<in> set (snd (forward w pdf_path query))"
  from forward_posts_built_prompt[OF this]
  show "\<exists>extracted. extract_pdf_text w pdf_path = Inr extracted \<and>
        req_messages r = [(py ''user'', create_ai_prompt extracted query)]"
    by (auto simp: build_request_def)
next
  assume a: "get_api_key w = Inr (Some api_key) \<and> api_key \<noteq> [] \<and> path_exists w pdf_path \<and>
    fitz_open w pdf_path = Inr (map Inr texts) \<and> texts \<noteq> []"
  let ?text = "concat (map (\<lambda>(i, t). page_marker (i + 1) @ t) (enumerate 0 texts))"
  from a have k: "get_api_key w = Inr (Some api_key)" and n: "api_key \<noteq> []"
    and p: "path_exists w pdf_path" and d: "fitz_open w pdf_path = Inr (map Inr texts)"
    and ne: "texts \<noteq> []"
    by simp_all
  have t: "extract_pdf_text w pdf_path = Inr ?text"
    using d by (rule extract_pdf_text_texts)
  have s: "strip ?text \<noteq> []" using ne by (rule strip_pages_nonempty)
  have "forward_try w pdf_path query =
          query_openrouter_ai w (create_ai_prompt ?text query) api_key"
    using k n p t s by (rule forward_try_queries)
  then have "snd (forward w pdf_path query) = [build_request (create_ai_prompt ?text query) api_key]"
    by (simp add: forward_def query_openrouter_ai_def Let_def split: sum.splits prod.splits)
  then show "map req_messages (snd (forward w pdf_path query)) =
        [[(py ''user'',
           preprompt @ ?text @ py ''\<newline>\<newline>USER QUESTION: '' @ query @
           py ''\<newline>\<newline>Please provide a comprehensive answer based on the document content above.'')]]"
    by (simp add: build_request_def create_ai_prompt_def user_prompt_def)
qed

theorem prompt_is_whole_document_witness:
  "get_api_key (example_world (Inr (py ''k1'')) None True two_page_doc PNone) = Inr (Some (py ''k1'')) \<and>
   py ''k1'' \<noteq> [] \<and>
   path_exists (example_world (Inr (py ''k1'')) None True two_page_doc PNone) (py ''a.pdf'') \<and>
   fitz_open (example_world (Inr (py ''k1'')) None True two_page_doc PNone) (py ''a.pdf'')
     = Inr (map Inr [py ''Hi'', py ''Yo'']) \<and>
   [py ''Hi'', py ''Yo''] \<noteq> [] \<and>
   map req_messages
     (snd (forward (example_world (Inr (py ''k1'')) None True two_page_doc PNone)
        (py ''a.pdf'') (py ''Why?''))) =
     [[(py ''user'',
        preprompt @ py ''\<newline>--- Page 1 ---\<newline>Hi\<newline>--- Page 2 ---\<newline>Yo'' @
        py ''\<newline>\<newline>USER QUESTION: Why?\<newline>\<newline>Please provide a comprehensive answer based on the document content above.'')]]"
  using prompt_is_whole_document
    [of "[]" "py ''Why?''" "example_world (Inr (py ''k1'')) None True two_page_doc PNone" "py ''a.pdf''"
        "py ''k1''" "[py ''Hi'', py ''Yo'']"]
  by (simp add: example_world_def two_page_doc_def get_api_key_def page_marker_def
      str_nat.simps py_def)

text \<open>
  Claim C5 as stated fails: for the two-page example document and the question \<open>Why?\<close>
  the message posted is not the preamble, the extracted text and the question alone; the
  question arrives under a heading and is followed by a closing request.
\<close>

theorem prompt_is_not_bare_concatenation:
  "map req_messages
     (snd (forward (example_world (Inr (py ''k1'')) None True two_page_doc PNone)
        (py ''a.pdf'') (py ''Why?''))) \<noteq>
     [[(py ''user'',
        preprompt @ py ''\<newline>--- Page 1 ---\<newline>Hi\<newline>--- Page 2 ---\<newline>Yo'' @ py ''Why?'')]]"
proof -
  let ?W = "example_world (Inr (py ''k1'')) None True two_page_doc PNone"
  let ?T = "py ''\<newline>--- Page 1 ---\<newline>Hi\<newline>--- Page 2 ---\<newline>Yo''"
  have "path_exists ?W (py ''a.pdf'')" by (simp add: example_world_def)
  then have "forward_try ?W (py ''a.pdf'') (py ''Why?'') =
          query_openrouter_ai ?W (create_ai_prompt ?T (py ''Why?'')) (py ''k1'')"
    using example_key two_page_text two_page_text_not_blank by (intro forward_try_queries)
  then have "snd (forward ?W (py ''a.pdf'') (py ''Why?'')) =
      [build_request (create_ai_prompt ?T (py ''Why?'')) (py ''k1'')]"
    by (simp add: forward_def query_openrouter_ai_def Let_def split: sum.splits prod.splits)
  then show ?thesis
    by (simp add: build_request_def create_ai_prompt_def user_prompt_def) (simp add: py_def)
qed

subsection \<open>Error strings of \<open>forward\<close>\<close>




text \<open>
  Claim C2 fails on the code. A document of one page whose text is empty (a scanned page)
  exists and a key is configured: the extracted text is the page marker alone, which is
  not blank, so \<open>forward\<close> does not return the message about missing text; it posts the
  prompt built from the marker and returns the endpoint's answer.
\<close>

theorem forward_scanned_pdf_reaches_endpoint:
  "forward
     (example_world (Inr (py ''k1'')) None True scanned_doc
        (chat_completion (PStr (py ''Nothing to read.''))))
     (py ''scan.pdf'') (py ''Why?'') =
     (Inr (PStr (py ''Nothing to read.'')),
      [build_request (create_ai_prompt (py ''\<newline>--- Page 1 ---\<newline>'') (py ''Why?'')) (py ''k1'')]) \<and>
   PStr (py ''Nothing to read.'') \<noteq> PStr (py ''Error: No text could be extracted from the PDF file.'')"
proof -
  let ?W = "example_world (Inr (py ''k1'')) None True scanned_doc
              (chat_completion (PStr (py ''Nothing to read.'')))"
  let ?T = "py ''\<newline>--- Page 1 ---\<newline>''"
  have t: "extract_pdf_text ?W (py ''scan.pdf'') = Inr ?T"
    by (simp add: extract_pdf_text_def and_then_def example_world_def scanned_doc_def
        page_marker_def str_nat.simps py_def)
  have s: "strip ?T \<noteq> []"
    by (simp add: strip_empty_iff is_space_def py_def)
  have p: "path_exists ?W (py ''scan.pdf'')" by (simp add: example_world_def)
  have "forward_try ?W (py ''scan.pdf'') (py ''Why?'') =
          query_openrouter_ai ?W (create_ai_prompt ?T (py ''Why?'')) (py ''k1'')"
    using example_key p t s by (rule forward_try_queries)
  moreover have "query_try ?W (build_request (create_ai_prompt ?T (py ''Why?'')) (py ''k1''))
      = Inr (PStr (py ''Nothing to read.''))"
    by (simp add: query_try_def and_then_def raise_for_status_def read_completion_def
        example_defs)
  ultimately have "forward ?W (py ''scan.pdf'') (py ''Why?'') =
     (Inr (PStr (py ''Nothing to read.'')),
      [build_request (create_ai_prompt ?T (py ''Why?'')) (py ''k1'')])"
    by (simp add: forward_def query_openrouter_ai_def)
  moreover have "PStr (py ''Nothing to read.'')
      \<noteq> PStr (py ''Error: No text could be extracted from the PDF file.'')"
    by (simp add: py_def)
  ultimately show ?thesis by blast
qed

subsection \<open>The answer of the endpoint\<close>

text \<open>
  Claim C3, as amended. When the request \<open>forward\<close> posts is answered with a 2xx status
  and a JSON object whose \<open>choices\<close> is a non-empty list, and the first choice is an
  object whose \<open>message\<close> is an object with a \<open>content\<close>, then \<open>forward\<close> returns that
  content unchanged.
\<close>

theorem first_choice_returned:
  assumes "get_api_key w = Inr (Some api_key)" and "api_key \<noteq> []"
    and "path_exists w pdf_path"
    and "extract_pdf_text w pdf_path = Inr pdf_text" and "strip pdf_text \<noteq> []"
    and "requests_post w (build_request (create_ai_prompt pdf_text query) api_key) = Inr resp"
    and "200 \<le> status_code resp" and "status_code resp < 300"
    and "json_result resp = Inr (PDict body)"
    and "map_of body (py ''choices'') = Some (PList (PDict choice # others))"
    and "map_of choice (py ''message'') = Some (PDict msg)"
    and "map_of msg (py ''content'') = Some answer"
  shows "fst (forward w pdf_path query) = Inr answer"
proof -
  have "py ''choices'' \<in> fst ` set body"
    using map_of_SomeD[OF assms(10)] by force
  then have "read_completion (type_error_msg w) (PDict body) = Inr answer"
    using assms(10-12) by (simp add: read_completion_def and_then_def)
  then have "query_try w (build_request (create_ai_prompt pdf_text query) api_key) = Inr answer"
    using assms(6-9) by (simp add: query_try_def and_then_def raise_for_status_def)
  then show ?thesis
    using assms(1-5) by (simp add: forward_def forward_try_def query_openrouter_ai_def)
qed

theorem first_choice_returned_witness:
  "get_api_key (example_world (Inr (py ''k1'')) None True two_page_doc (chat_completion (PStr (py ''Fine.''))))
     = Inr (Some (py ''k1'')) \<and>
   py ''k1'' \<noteq> [] \<and>
   path_exists (example_world (Inr (py ''k1'')) None True two_page_doc (chat_completion (PStr (py ''Fine.''))))
     (py ''a.pdf'') \<and>
   extract_pdf_text (example_world (Inr (py ''k1'')) None True two_page_doc (chat_completion (PStr (py ''Fine.''))))
     (py ''a.pdf'') = Inr (py ''\<newline>--- Page 1 ---\<newline>Hi\<newline>--- Page 2 ---\<newline>Yo'') \<and>
   strip (py ''\<newline>--- Page 1 ---\<newline>Hi\<newline>--- Page 2 ---\<newline>Yo'') \<noteq> [] \<and>
   requests_post (example_world (Inr (py ''k1'')) None True two_page_doc (chat_completion (PStr (py ''Fine.''))))
     (build_request (create_ai_prompt (py ''\<newline>--- Page 1 ---\<newline>Hi\<newline>--- Page 2 ---\<newline>Yo'') (py ''Why?'')) (py ''k1''))
     = Inr (ok_response (chat_completion (PStr (py ''Fine.'')))) \<and>
   200 \<le> status_code (ok_response (chat_completion (PStr (py ''Fine.'')))) \<and>
   status_code (ok_response (chat_completion (PStr (py ''Fine.'')))) < 300 \<and>
   json_result (ok_response (chat_completion (PStr (py ''Fine.''))))
     = Inr (PDict [(py ''choices'', PList [PDict [(py ''message'', PDict [(py ''content'', PStr (py ''Fine.''))])]])]) \<and>
   map_of [(py ''choices'', PList [PDict [(py ''message'', PDict [(py ''content'', PStr (py ''Fine.''))])]])] (py ''choices'')
     = Some (PList (PDict [(py ''message'', PDict [(py ''content'', PStr (py ''Fine.''))])] # [])) \<and>
   map_of [(py ''message'', PDict [(py ''content'', PStr (py ''Fine.''))])] (py ''message'')
     = Some (PDict [(py ''content'', PStr (py ''Fine.''))]) \<and>
   map_of [(py ''content'', PStr (py ''Fine.''))] (py ''content'') = Some (PStr (py ''Fine.'')) \<and>
   fst (forward (example_world (Inr (py ''k1'')) None True two_page_doc (chat_completion (PStr (py ''Fine.''))))
     (py ''a.pdf'') (py ''Why?'')) = Inr (PStr (py ''Fine.''))"
proof -
  let ?W = "example_world (Inr (py ''k1'')) None True two_page_doc (chat_completion (PStr (py ''Fine.'')))"
  let ?T = "py ''\<newline>--- Page 1 ---\<newline>Hi\<newline>--- Page 2 ---\<newline>Yo''"
  have k: "get_api_key ?W = Inr (Some (py ''k1''))" and n: "py ''k1'' \<noteq> []"
    by (rule example_key)+
  have p: "path_exists ?W (py ''a.pdf'')"
    by (simp add: example_world_def)
  have t: "extract_pdf_text ?W (py ''a.pdf'') = Inr ?T"
    by (rule two_page_text)
  have s: "strip ?T \<noteq> []"
    by (rule two_page_text_not_blank)
  have r: "requests_post ?W (build_request (create_ai_prompt ?T (py ''Why?'')) (py ''k1''))
             = Inr (ok_response (chat_completion (PStr (py ''Fine.''))))"
    by (simp add: example_world_def)
  have c: "200 \<le> status_code (ok_response (chat_completion (PStr (py ''Fine.''))))"
    "status_code (ok_response (chat_completion (PStr (py ''Fine.'')))) < 300"
    by (simp_all add: ok_response_def)
  have j: "json_result (ok_response (chat_completion (PStr (py ''Fine.''))))
     = Inr (PDict [(py ''choices'', PList [PDict [(py ''message'', PDict [(py ''content'', PStr (py ''Fine.''))])]])])"
    by (simp add: ok_response_def chat_completion_def)
  have m1: "map_of [(py ''choices'', PList [PDict [(py ''message'', PDict [(py ''content'', PStr (py ''Fine.''))])]])] (py ''choices'')
     = Some (PList (PDict [(py ''message'', PDict [(py ''content'', PStr (py ''Fine.''))])] # []))"
    and m2: "map_of [(py ''message'', PDict [(py ''content'', PStr (py ''Fine.''))])] (py ''message'')
     = Some (PDict [(py ''content'', PStr (py ''Fine.''))])"
    and m3: "map_of [(py ''content'', PStr (py ''Fine.''))] (py ''content'') = Some (PStr (py ''Fine.''))"
    by simp_all
  show ?thesis
    using k n p t s r c j m1 m2 m3 first_choice_returned [OF k n p t s r c j m1 m2 m3]
    by blast
qed

text \<open>
  Claim C3 as stated fails: a 2xx answer whose \<open>choices\<close> is a non-empty list need not
  carry a message. For the body \<open>{"choices": [{}]}\<close> the lookup of \<open>message\<close> raises
  \<open>KeyError\<close>, which the tool reports as an unexpected response format.
\<close>

theorem first_choice_without_message:
  "requests_post
      (example_world (Inr (py ''k1'')) None True two_page_doc (PDict [(py ''choices'', PList [PDict []])]))
      (build_request (create_ai_prompt (py ''\<newline>--- Page 1 ---\<newline>Hi\<newline>--- Page 2 ---\<newline>Yo'') (py ''Why?'')) (py ''k1''))
     = Inr \<lparr> status_code = 200, http_error_text = [],
             json_result = Inr (PDict [(py ''choices'', PList [PDict []])]) \<rparr> \<and>
   forward
      (example_world (Inr (py ''k1'')) None True two_page_doc (PDict [(py ''choices'', PList [PDict []])]))
      (py ''a.pdf'') (py ''Why?'')
     = (Inr (PStr (py ''Error processing request: Unexpected API response format: '' @
                  [39] @ py ''message'' @ [39])),
        [build_request (create_ai_prompt (py ''\<newline>--- Page 1 ---\<newline>Hi\<newline>--- Page 2 ---\<newline>Yo'') (py ''Why?'')) (py ''k1'')])"
proof -
  let ?W = "example_world (Inr (py ''k1'')) None True two_page_doc (PDict [(py ''choices'', PList [PDict []])])"
  let ?T = "py ''\<newline>--- Page 1 ---\<newline>Hi\<newline>--- Page 2 ---\<newline>Yo''"
  have p: "path_exists ?W (py ''a.pdf'')" by (simp add: example_world_def)
  have "forward_try ?W (py ''a.pdf'') (py ''Why?'') =
          query_openrouter_ai ?W (create_ai_prompt ?T (py ''Why?'')) (py ''k1'')"
    using example_key p two_page_text two_page_text_not_blank by (rule forward_try_queries)
  moreover have "query_try ?W (build_request (create_ai_prompt ?T (py ''Why?'')) (py ''k1''))
      = Inl (Exc KeyError ([39] @ py ''message'' @ [39]))"
    by (simp add: query_try_def and_then_def raise_for_status_def read_completion_def
        example_defs)
  ultimately show ?thesis
    by (simp add: forward_def query_openrouter_ai_def forward_except_def example_defs)
      (simp add: py_def)
qed

subsection \<open>No exception leaves \<open>forward\<close>\<close>




section \<open>Properties of the web application\<close>

subsection \<open>Clean-up of the scratch directory\<close>





subsection \<open>Uploads\<close>

lemma temp_dir_shape:
  "path_join c (py ''temp'') \<noteq> [] \<and> last (path_join c (py ''temp'')) \<noteq> 47"
  by (simp add: path_join_def py_def)

lemma upload_path:
  "path_join (path_join c (py ''temp'')) (py ''uploaded_'' @ n) =
     path_join c (py ''temp'') @ py ''/uploaded_'' @ n"
proof -
  have "py ''uploaded_'' @ n \<noteq> [] \<and> hd (py ''uploaded_'' @ n) \<noteq> 47" by (simp add: py_def)
  then have "path_join (path_join c (py ''temp'')) (py ''uploaded_'' @ n) =
     path_join c (py ''temp'') @ [47] @ py ''uploaded_'' @ n"
    using temp_dir_shape[of c] unfolding path_join_def[of "path_join c (py ''temp'')"] by simp
  then show ?thesis by (simp add: py_def)
qed

lemma upload_loop_returns:
  "upload_loop temp_dir files processed fs shown = (Inr infos, fs', shown') \<Longrightarrow>
   infos = processed @ map (upload_info temp_dir)
             (filter (\<lambda>u. uf_type u = py ''application/pdf'') files) \<and>
   written fs' = written fs @
     map (\<lambda>u. (path_join temp_dir (py ''uploaded_'' @ uf_name u), uf_data u))
       (filter (\<lambda>u. uf_type u = py ''application/pdf'') files)"
proof (induction files arbitrary: processed fs shown)
  case Nil
  then show ?case by simp
next
  case (Cons u files)
  show ?case
  proof (cases "uf_type u = py ''application/pdf''")
    case False
    with Cons.prems have
      "upload_loop temp_dir files processed fs (shown @ [not_pdf_msg (uf_name u)]) = (Inr infos, fs', shown')"
      by simp
    from Cons.IH[OF this] False show ?thesis by simp
  next
    case True
    let ?p = "path_join temp_dir (py ''uploaded_'' @ uf_name u)"
    show ?thesis
    proof (cases "write_error fs ?p")
      case (Some e)
      with True Cons.prems show ?thesis by (simp add: write_file_def)
    next
      case None
      let ?fs1 = "fs\<lparr>written := written fs @ [(?p, uf_data u)]\<rparr>"
      from True None Cons.prems have
        "upload_loop temp_dir files (processed @ [upload_info temp_dir u]) ?fs1 shown = (Inr infos, fs', shown')"
        by (simp add: write_file_def)
      from Cons.IH[OF this] True show ?thesis by simp
    qed
  qed
qed

lemma upload_loop_succeeds:
  "\<forall>u\<in>set files. uf_type u = py ''application/pdf'' \<longrightarrow>
       write_error fs (path_join temp_dir (py ''uploaded_'' @ uf_name u)) = None \<Longrightarrow>
   \<exists>infos fs' shown'. upload_loop temp_dir files processed fs shown = (Inr infos, fs', shown')"
proof (induction files arbitrary: processed fs shown)
  case Nil
  then show ?case by simp
next
  case (Cons u files)
  show ?case
  proof (cases "uf_type u = py ''application/pdf''")
    case False
    then show ?thesis using Cons.IH[of fs processed "shown @ [not_pdf_msg (uf_name u)]"] Cons.prems
      by simp
  next
    case True
    let ?p = "path_join temp_dir (py ''uploaded_'' @ uf_name u)"
    let ?fs1 = "fs\<lparr>written := written fs @ [(?p, uf_data u)]\<rparr>"
    have w: "write_file fs ?p (uf_data u) = Inr ?fs1"
      using True Cons.prems by (simp add: write_file_def)
    have "\<forall>v\<in>set files. uf_type v = py ''application/pdf'' \<longrightarrow>
       write_error ?fs1 (path_join temp_dir (py ''uploaded_'' @ uf_name v)) = None"
      using Cons.prems by simp
    from Cons.IH[OF this, of "processed @ [upload_info temp_dir u]" shown]
    show ?thesis using True w by simp
  qed
qed

text \<open>
  Claim C9. Whenever \<open>handle_multiple_pdf_uploads\<close> returns for a list of uploaded
  files, the entries it returns are, in order, those of the files whose declared type is
  \<open>application/pdf\<close> and of no other file; each entry records the path
  \<open><scratch-dir>/uploaded_<original-name>\<close>, the name and the size, and the bytes of
  each such file were written at that path, in the same order. It does return when the
  scratch directory can be created and none of these writes raises, and it returns the
  empty list, writing nothing, when there are no uploaded files.
\<close>

theorem uploads_recorded:
  "(handle_multiple_pdf_uploads fs (Some files) = (Inr infos, fs', shown) \<longrightarrow>
      infos =
        map (\<lambda>u. \<lparr> fi_path = path_join (cwd fs) (py ''temp'') @ py ''/uploaded_'' @ uf_name u,
                    fi_name = uf_name u,
                    fi_size = (case uf_size u of Some n \<Rightarrow> n | None \<Rightarrow> 0) \<rparr>)
          (filter (\<lambda>u. uf_type u = py ''application/pdf'') files) \<and>
      written fs' = written fs @
        map (\<lambda>u. (path_join (cwd fs) (py ''temp'') @ py ''/uploaded_'' @ uf_name u, uf_data u))
          (filter (\<lambda>u. uf_type u = py ''application/pdf'') files)) \<and>
   (makedirs_error fs = None \<and>
    (\<forall>u\<in>set files. uf_type u = py ''application/pdf'' \<longrightarrow>
        write_error fs (path_join (cwd fs) (py ''temp'') @ py ''/uploaded_'' @ uf_name u) = None) \<longrightarrow>
      (\<exists>infos fs' shown. handle_multiple_pdf_uploads fs (Some files) = (Inr infos, fs', shown))) \<and>
   handle_multiple_pdf_uploads fs None = (Inr [], fs, [])"
proof (intro conjI impI)
  let ?t = "path_join (cwd fs) (py ''temp'')"
  let ?fs1 = "fs\<lparr>scratch := Some (case scratch fs of None \<Rightarrow> [] | Some entries \<Rightarrow> entries)\<rparr>"
  assume r: "handle_multiple_pdf_uploads fs (Some files) = (Inr infos, fs', shown)"
  then have m: "makedirs_error fs = None"
    by (auto simp: handle_multiple_pdf_uploads_def create_temp_directory_def Let_def
        split: option.splits)
  with r have l: "upload_loop ?t files [] ?fs1 [] = (Inr infos, fs', shown)"
    by (simp add: handle_multiple_pdf_uploads_def create_temp_directory_def)
  from upload_loop_returns[OF l]
  show "infos =
        map (\<lambda>u. \<lparr> fi_path = ?t @ py ''/uploaded_'' @ uf_name u,
                    fi_name = uf_name u,
                    fi_size = (case uf_size u of Some n \<Rightarrow> n | None \<Rightarrow> 0) \<rparr>)
          (filter (\<lambda>u. uf_type u = py ''application/pdf'') files)"
    by (simp add: upload_info_def upload_path)
  from upload_loop_returns[OF l]
  show "written fs' = written fs @
        map (\<lambda>u. (?t @ py ''/uploaded_'' @ uf_name u, uf_data u))
          (filter (\<lambda>u. uf_type u = py ''application/pdf'') files)"
    by (simp add: upload_path)
next
  let ?t = "path_join (cwd fs) (py ''temp'')"
  let ?fs1 = "fs\<lparr>scratch := Some (case scratch fs of None \<Rightarrow> [] | Some entries \<Rightarrow> entries)\<rparr>"
  assume a: "makedirs_error fs = None \<and>
    (\<forall>u\<in>set files. uf_type u = py ''application/pdf'' \<longrightarrow>
        write_error fs (?t @ py ''/uploaded_'' @ uf_name u) = None)"
  then have "\<forall>u\<in>set files. uf_type u = py ''application/pdf'' \<longrightarrow>
       write_error ?fs1 (path_join ?t (py ''uploaded_'' @ uf_name u)) = None"
    by (simp add: upload_path)
  from upload_loop_succeeds[OF this, of "[]" "[]"] a
  show "\<exists>infos fs' shown. handle_multiple_pdf_uploads fs (Some files) = (Inr infos, fs', shown)"
    by (simp add: handle_multiple_pdf_uploads_def create_temp_directory_def)
next
  show "handle_multiple_pdf_uploads fs None = (Inr [], fs, [])"
    by (simp add: handle_multiple_pdf_uploads_def)
qed

theorem uploads_recorded_witness:
  "handle_multiple_pdf_uploads (example_fs None no_error no_error) (Some example_uploads) =
     (Inr [\<lparr> fi_path = py ''/app/temp/uploaded_a.pdf'', fi_name = py ''a.pdf'', fi_size = 4 \<rparr>],
      (example_fs None no_error no_error)
        \<lparr> scratch := Some [], written := [(py ''/app/temp/uploaded_a.pdf'', [37, 80, 68, 70])] \<rparr>,
      [not_pdf_msg (py ''notes.txt'')]) \<and>
   makedirs_error (example_fs None no_error no_error) = None \<and>
   write_error (example_fs None no_error no_error) (py ''/app/temp/uploaded_a.pdf'') = None \<and>
   filter (\<lambda>u. uf_type u = py ''application/pdf'') example_uploads =
     [\<lparr> uf_name = py ''a.pdf'', uf_type = py ''application/pdf'', uf_data = [37, 80, 68, 70],
        uf_size = Some 4 \<rparr>] \<and>
   written ((example_fs None no_error no_error)
        \<lparr> scratch := Some [], written := [(py ''/app/temp/uploaded_a.pdf'', [37, 80, 68, 70])] \<rparr>)
     = written (example_fs None no_error no_error) @
         [(path_join (cwd (example_fs None no_error no_error)) (py ''temp'') @ py ''/uploaded_a.pdf'',
           [37, 80, 68, 70])]"
proof -
  have h: "handle_multiple_pdf_uploads (example_fs None no_error no_error) (Some example_uploads) =
     (Inr [\<lparr> fi_path = py ''/app/temp/uploaded_a.pdf'', fi_name = py ''a.pdf'', fi_size = 4 \<rparr>],
      (example_fs None no_error no_error)
        \<lparr> scratch := Some [], written := [(py ''/app/temp/uploaded_a.pdf'', [37, 80, 68, 70])] \<rparr>,
      [not_pdf_msg (py ''notes.txt'')])"
    by (simp add: handle_multiple_pdf_uploads_def create_temp_directory_def write_file_def
        upload_info_def example_fs_def example_uploads_def no_error_def path_join_def py_def)
  have m: "makedirs_error (example_fs None no_error no_error) = None"
    by (simp add: example_fs_def)
  have w: "write_error (example_fs None no_error no_error) (py ''/app/temp/uploaded_a.pdf'') = None"
    by (simp add: example_fs_def no_error_def)
  have f: "filter (\<lambda>u. uf_type u = py ''application/pdf'') example_uploads =
     [\<lparr> uf_name = py ''a.pdf'', uf_type = py ''application/pdf'', uf_data = [37, 80, 68, 70],
        uf_size = Some 4 \<rparr>]"
    by (simp add: example_uploads_def py_def)
  from h uploads_recorded
    [of "example_fs None no_error no_error" example_uploads
        "[\<lparr> fi_path = py ''/app/temp/uploaded_a.pdf'', fi_name = py ''a.pdf'', fi_size = 4 \<rparr>]"
        "(example_fs None no_error no_error)
           \<lparr> scratch := Some [], written := [(py ''/app/temp/uploaded_a.pdf'', [37, 80, 68, 70])] \<rparr>"
        "[not_pdf_msg (py ''notes.txt'')]"]
  have "written ((example_fs None no_error no_error)
        \<lparr> scratch := Some [], written := [(py ''/app/temp/uploaded_a.pdf'', [37, 80, 68, 70])] \<rparr>)
     = written (example_fs None no_error no_error) @
         map (\<lambda>u. (path_join (cwd (example_fs None no_error no_error)) (py ''temp'') @
                      py ''/uploaded_'' @ uf_name u, uf_data u))
           (filter (\<lambda>u. uf_type u = py ''application/pdf'') example_uploads)"
    by blast
  then have "written ((example_fs None no_error no_error)
        \<lparr> scratch := Some [], written := [(py ''/app/temp/uploaded_a.pdf'', [37, 80, 68, 70])] \<rparr>)
     = written (example_fs None no_error no_error) @
         [(path_join (cwd (example_fs None no_error no_error)) (py ''temp'') @ py ''/uploaded_a.pdf'',
           [37, 80, 68, 70])]"
    unfolding f by (simp add: py_def)
  with h m w f show ?thesis by blast
qed

subsection \<open>The chat history\<close>

text \<open>
  Claim C7. Whatever the history was, the clear action leaves exactly one message, whose
  role is \<open>assistant\<close> and whose content is the greeting. The button that triggers it
  is offered whenever the history is not empty, so a run of \<open>main\<close> in which it is
  pressed ends with that single message.
\<close>

theorem clear_resets_to_greeting:
  "clear_chat_history h = [greeting_message] \<and>
   length (clear_chat_history h) = 1 \<and>
   role (hd (clear_chat_history h)) = py ''assistant'' \<and>
   content (hd (clear_chat_history h)) = greeting_text \<and>
   (h \<noteq> [] \<longrightarrow> clear_button h True = [greeting_message]) \<and>
   (stored \<noteq> Some [] \<longrightarrow>
      main_chat stored \<lparr> run_turn = None, run_clear_clicked = True \<rparr> = [greeting_message])"
proof -
  have "init_chat_history stored \<noteq> []" if "stored \<noteq> Some []"
    using that by (cases stored) (simp_all add: init_chat_history_def)
  then show ?thesis
    by (simp add: clear_chat_history_def clear_button_def greeting_message_def main_chat_def)
qed

theorem clear_resets_to_greeting_witness:
  "[assistant_message (py ''Done.'')] \<noteq> [] \<and>
   clear_button [assistant_message (py ''Done.'')] True = [greeting_message] \<and>
   clear_chat_history [assistant_message (py ''Done.'')] = [greeting_message] \<and>
   Some [assistant_message (py ''Done.'')] \<noteq> Some [] \<and>
   main_chat (Some [assistant_message (py ''Done.'')])
     \<lparr> run_turn = None, run_clear_clicked = True \<rparr> = [greeting_message]"
  using clear_resets_to_greeting
    [of "[assistant_message (py ''Done.'')]" "Some [assistant_message (py ''Done.'')]"]
  by simp

lemma chat_invariant_append: "chat_invariant h \<Longrightarrow> chat_invariant (h @ [m])"
  by (cases h) (simp_all add: chat_invariant_def)

lemma chat_invariant_generated:
  "chat_invariant h \<Longrightarrow> chat_invariant (foldl append_generated_file_message h files)"
  by (induction files arbitrary: h)
    (simp_all add: append_generated_file_message_def chat_invariant_append)

lemma chat_invariant_clear: "chat_invariant (clear_chat_history h)"
  by (simp add: clear_chat_history_def chat_invariant_def)

lemma chat_invariant_turn: "chat_invariant h \<Longrightarrow> chat_invariant (chat_turn_history h t)"
  by (simp add: chat_turn_history_def Let_def append_user_message_def
      append_assistant_message_def chat_invariant_append chat_invariant_generated)

lemma chat_invariant_button: "chat_invariant h \<Longrightarrow> chat_invariant (clear_button h clicked)"
  using chat_invariant_clear[of h] by (cases h) (simp_all add: clear_button_def)

lemma chat_invariant_init:
  "stored = None \<or> (\<exists>h. stored = Some h \<and> chat_invariant h) \<Longrightarrow>
   chat_invariant (init_chat_history stored)"
  by (auto simp: init_chat_history_def chat_invariant_def)

lemma chat_invariant_main:
  "stored = None \<or> (\<exists>h. stored = Some h \<and> chat_invariant h) \<Longrightarrow>
   chat_invariant (main_chat stored inp)"
  using chat_invariant_init[of stored]
  by (auto simp: main_chat_def Let_def chat_invariant_turn chat_invariant_button
      split: option.splits)

lemma chat_invariant_runs:
  "stored = None \<or> (\<exists>h. stored = Some h \<and> chat_invariant h) \<Longrightarrow> inps \<noteq> [] \<Longrightarrow>
   \<exists>h. main_runs stored inps = Some h \<and> chat_invariant h"
proof (induction inps arbitrary: stored)
  case Nil
  then show ?case by simp
next
  case (Cons inp inps)
  have m: "chat_invariant (main_chat stored inp)"
    using Cons.prems(1) by (rule chat_invariant_main)
  show ?case
  proof (cases inps)
    case Nil
    with m show ?thesis by simp
  next
    case (Cons a list)
    then have "inps \<noteq> []" by simp
    with Cons.IH[of "Some (main_chat stored inp)"] m show ?thesis by simp
  qed
qed

lemma example_run:
  "main_runs None example_inputs =
     Some [greeting_message, user_message (py ''Make a report'') [],
           generated_file_message (py ''report.xlsx''), assistant_message (py ''Done.'')]"
  by (simp add: example_inputs_def example_turn_def main_chat_def init_chat_history_def
        clear_button_def chat_turn_history_def new_generated_files_def
        append_user_message_def append_assistant_message_def append_generated_file_message_def
        strip_empty_iff is_space_def user_message_def greeting_message_def suffix_def py_def)

text \<open>
  Claim C10. The initialised history is not empty and starts with the assistant's
  greeting, and each operation on it keeps that: appending a user message, an assistant
  answer or the notice of a generated file, clearing, and so the chat section of a whole
  run of \<open>main\<close>; hence it holds after any number of runs of a session.
\<close>

theorem chat_history_invariant:
  "chat_invariant (init_chat_history None) \<and>
   (chat_invariant h \<longrightarrow>
      chat_invariant (append_user_message h message_text processed_files) \<and>
      chat_invariant (append_assistant_message h combined_response) \<and>
      chat_invariant (append_generated_file_message h file) \<and>
      chat_invariant (clear_chat_history h) \<and>
      chat_invariant (main_chat (Some h) inp)) \<and>
   (inps \<noteq> [] \<longrightarrow> (\<exists>h'. main_runs None inps = Some h' \<and> chat_invariant h'))"
  using chat_invariant_runs[of None inps] chat_invariant_main[of "Some h" inp]
  by (simp add: chat_invariant_init chat_invariant_clear chat_invariant_append
      append_user_message_def append_assistant_message_def append_generated_file_message_def)

theorem chat_history_invariant_witness:
  "chat_invariant [greeting_message] \<and>
   chat_invariant (append_user_message [greeting_message] (py ''Hello'') []) \<and>
   chat_invariant (append_assistant_message [greeting_message] (py ''Done.'')) \<and>
   chat_invariant (append_generated_file_message [greeting_message] (py ''report.xlsx'')) \<and>
   chat_invariant (clear_chat_history [greeting_message]) \<and>
   chat_invariant (main_chat (Some [greeting_message]) \<lparr> run_turn = Some example_turn, run_clear_clicked = False \<rparr>) \<and>
   example_inputs \<noteq> [] \<and>
   main_runs None example_inputs =
     Some [greeting_message, user_message (py ''Make a report'') [],
           generated_file_message (py ''report.xlsx''), assistant_message (py ''Done.'')] \<and>
   chat_invariant [greeting_message, user_message (py ''Make a report'') [],
           generated_file_message (py ''report.xlsx''), assistant_message (py ''Done.'')]"
proof -
  have g: "chat_invariant [greeting_message]" by (simp add: chat_invariant_def)
  have n: "example_inputs \<noteq> []" by (simp add: example_inputs_def)
  from chat_history_invariant
    [of "[greeting_message]" "py ''Hello''" "[]" "py ''Done.''" "py ''report.xlsx''"
        "\<lparr> run_turn = Some example_turn, run_clear_clicked = False \<rparr>" example_inputs]
    g n example_run
  show ?thesis by auto
qed

end
